theory Spec2Isabelle
  imports
    Main
    "HOL-Library.Sublist"
    "HOL-Library.Char_ord"
    "HOL-Library.List_Lexorder"
    "HOL-Library.Product_Lexorder"
begin

section \<open>Strings\<close>

text \<open>
  A Python \<open>str\<close> is modelled as a \<open>string\<close> whose characters are read as code points
  below 256. \<open>str.strip()\<close> removes the characters for which \<open>str.isspace\<close> holds from both
  ends; \<open>str.lower()\<close> maps the upper-case letters of that range to their lower-case forms.
\<close>

definition isspace :: "char \<Rightarrow> bool" where
  "isspace c =
     (let n = (of_char c :: nat)
      in (9 \<le> n \<and> n \<le> 13) \<or> (28 \<le> n \<and> n \<le> 32) \<or> n = 133 \<or> n = 160)"

definition strip :: "string \<Rightarrow> string" where
  "strip s = rev (dropWhile isspace (rev (dropWhile isspace s)))"

definition lower_char :: "char \<Rightarrow> char" where
  "lower_char c =
     (let n = (of_char c :: nat)
      in if (65 \<le> n \<and> n \<le> 90) \<or> (192 \<le> n \<and> n \<le> 222 \<and> n \<noteq> 215)
         then char_of (n + 32) else c)"

definition lower :: "string \<Rightarrow> string" where
  "lower s = map lower_char s"

text \<open>\<open>sep.join(xs)\<close>.\<close>

fun join :: "string \<Rightarrow> string list \<Rightarrow> string" where
  "join sep [] = []"
| "join sep [x] = x"
| "join sep (x # y # ys) = x @ sep @ join sep (y # ys)"

text \<open>
  \<open>s.split(sep)\<close> for a non-empty separator: the string is cut at the non-overlapping
  occurrences of \<open>sep\<close>, found from the left. The accumulator \<open>cur\<close> holds the field being
  read, reversed.
\<close>

function split_from :: "string \<Rightarrow> string \<Rightarrow> string \<Rightarrow> string list" where
  "split_from sep cur [] = [rev cur]"
| "split_from sep cur (c # cs) =
     (if sep \<noteq> [] \<and> prefix sep (c # cs)
      then rev cur # split_from sep [] (drop (length sep) (c # cs))
      else split_from sep (c # cur) cs)"
  by pat_completeness auto
termination
  by (relation "measure (\<lambda>(sep, cur, s). length s)") auto

definition split :: "string \<Rightarrow> string \<Rightarrow> string list" where
  "split s sep = split_from sep [] s"

text \<open>
  \<open>dict.fromkeys(xs)\<close> builds a dictionary by inserting the elements of \<open>xs\<close> in order; a
  key that is already present keeps its position. Iterating the dictionary (as \<open>join\<close>
  does) yields the keys in insertion order, so the dictionary is modelled by that list.
\<close>

definition fromkeys :: "'a list \<Rightarrow> 'a list" where
  "fromkeys xs = fold (\<lambda>x d. if x \<in> set d then d else d @ [x]) xs []"

text \<open>The apostrophe of the messages built by f-strings.\<close>

definition apos :: string where
  "apos = [CHR 0x27]"

section \<open>The skill store (skill\_store.py)\<close>

text \<open>One row of the table, with the columns of \<open>COLUMNS\<close>; every cell is a string.\<close>

record skill_row =
  remote_skill_id :: string
  workday_skill :: string
  lightcast_skill :: string
  lightcast_skill_id :: string
  skill_type :: string
  category :: string
  status :: string

text \<open>
  The two files of the store. \<open>normalized_skills.csv\<close> is absent (\<open>None\<close>), or holds
  a header line with the columns and the rows written below it (\<open>Table\<close>), or was
  written from a frame without columns and holds no header line (\<open>NoColumns\<close>): that is
  what \<open>to_csv\<close> writes for \<open>pd.DataFrame([])\<close>. The spreadsheet mirror is absent, or
  holds the rows of the frame that was exported (\<open>Sheet\<close>), or is what an export
  leaves behind when it raises midway (\<open>Partial\<close>, its content is not modelled).
\<close>

datatype csv_content = NoColumns | Table "skill_row list"

datatype xlsx_content = Sheet "skill_row list" | Partial

record files =
  csv_file :: "csv_content option"
  xlsx_file :: "xlsx_content option"

text \<open>
  Three library functions decide what the store's operations compute and are not part
  of the repository; the operations take them as a parameter.
  \<^item> \<open>na_token\<close>: the cell texts that \<open>pandas.read_csv\<close> reads as a missing value
    (the empty cell among them). \<open>load_df\<close> turns every missing value into the empty
    string with \<open>fillna("")\<close>.
  \<^item> \<open>re_search\<close>: the regular-expression search behind \<open>Series.str.contains(pat)\<close>
    for a pattern that holds a metacharacter. \<open>Inl msg\<close> is a pattern that does not
    compile (\<open>re.error\<close> with message \<open>msg\<close>), \<open>Inr m\<close> the search predicate.
  \<^item> \<open>to_excel_error\<close>: \<open>DataFrame.to_excel\<close> raises on a frame with a cell that a
    worksheet refuses; \<open>Some msg\<close> is the message of that exception, \<open>None\<close> a frame
    that is exported.
\<close>

record lib =
  na_token :: "string \<Rightarrow> bool"
  re_search :: "string \<Rightarrow> string + (string \<Rightarrow> bool)"
  to_excel_error :: "skill_row list \<Rightarrow> string option"

text \<open>
  The exceptions: \<open>ValueError\<close> as the repository raises it, with its message;
  \<open>pandas.errors.EmptyDataError\<close>, which \<open>read_csv\<close> raises on a file without a
  header line and which is a subclass of \<open>ValueError\<close>, so that an
  \<open>except ValueError\<close> clause catches it; and every other exception.
\<close>

datatype error = ValueError string | EmptyDataError string | OtherError string

definition read_cell :: "lib \<Rightarrow> string \<Rightarrow> string" where
  "read_cell L s = (if na_token L s then [] else s)"

definition read_row :: "lib \<Rightarrow> skill_row \<Rightarrow> skill_row" where
  "read_row L r =
     \<lparr> remote_skill_id = read_cell L (remote_skill_id r),
       workday_skill = read_cell L (workday_skill r),
       lightcast_skill = read_cell L (lightcast_skill r),
       lightcast_skill_id = read_cell L (lightcast_skill_id r),
       skill_type = read_cell L (skill_type r),
       category = read_cell L (category r),
       status = read_cell L (status r) \<rparr>"

text \<open>
  \<open>load_df\<close>: an absent file gives the empty frame with the columns of \<open>COLUMNS\<close>;
  \<open>read_csv\<close> raises on the file without a header line.
\<close>

definition load_df :: "lib \<Rightarrow> files \<Rightarrow> error + skill_row list" where
  "load_df L fs =
     (case csv_file fs of
        None \<Rightarrow> Inr []
      | Some NoColumns \<Rightarrow> Inl (EmptyDataError ''No columns to parse from file'')
      | Some (Table rows) \<Rightarrow> Inr (map (read_row L) rows))"

text \<open>
  Writing a frame: \<open>to_csv\<close> first, then \<open>to_excel\<close>. When the export raises, the CSV
  file has already been overwritten. \<open>save_df\<close> writes a frame that \<open>load_df\<close> has
  read, which has its columns whatever the number of its rows.
\<close>

definition write_files :: "lib \<Rightarrow> csv_content \<Rightarrow> skill_row list \<Rightarrow> files \<Rightarrow> (error + unit) \<times> files" where
  "write_files L csv df fs =
     (case to_excel_error L df of
        Some msg \<Rightarrow> (Inl (OtherError msg), fs \<lparr> csv_file := Some csv, xlsx_file := Some Partial \<rparr>)
      | None \<Rightarrow> (Inr (), fs \<lparr> csv_file := Some csv, xlsx_file := Some (Sheet df) \<rparr>))"

definition save_df :: "lib \<Rightarrow> skill_row list \<Rightarrow> files \<Rightarrow> (error + unit) \<times> files" where
  "save_df L df fs = write_files L (Table df) df fs"

text \<open>
  An optional string argument as the \<open>if arg:\<close> tests of the source see it: \<open>None\<close> and
  the empty string both count as not given.
\<close>

definition given :: "string option \<Rightarrow> string option" where
  "given a = (case a of None \<Rightarrow> None | Some s \<Rightarrow> if s = [] then None else Some s)"

text \<open>
  \<open>Series.str.contains(pat, na=False)\<close> searches every cell for \<open>pat\<close> as a regular
  expression. A pattern without a metacharacter matches itself and nothing else, so the
  search is then the search for a substring; any other pattern goes to the library.
\<close>

definition metachar :: "char \<Rightarrow> bool" where
  "metachar c = (c \<in> set (''.^$*+?{}[]|()'' @ [CHR 0x5C]))"

definition plain :: "string \<Rightarrow> bool" where
  "plain pat = list_all (\<lambda>c. \<not> metachar c) pat"

definition str_contains :: "lib \<Rightarrow> string \<Rightarrow> string list \<Rightarrow> error + bool list" where
  "str_contains L pat col =
     (if plain pat then Inr (map (sublist pat) col)
      else (case re_search L pat of
              Inl msg \<Rightarrow> Inl (OtherError msg)
            | Inr m \<Rightarrow> Inr (map m col)))"

text \<open>
  Boolean masks over the rows of a frame: the comparison of a stripped column with a
  stripped value, \<open>str.contains\<close> on a lower-cased column, the comparison of a
  lower-cased, stripped column with a lower-cased, stripped value, \<open>mask.any()\<close> and the
  selection \<open>df[mask]\<close>.
\<close>

definition id_mask :: "string \<Rightarrow> skill_row list \<Rightarrow> bool list" where
  "id_mask v df = map (\<lambda>r. strip (remote_skill_id r) = strip v) df"

definition contains_mask ::
  "lib \<Rightarrow> (skill_row \<Rightarrow> string) \<Rightarrow> string \<Rightarrow> skill_row list \<Rightarrow> error + bool list" where
  "contains_mask L col v df = str_contains L (lower v) (map (\<lambda>r. lower (col r)) df)"

definition exact_mask :: "string \<Rightarrow> skill_row list \<Rightarrow> bool list" where
  "exact_mask v df = map (\<lambda>r. strip (lower (workday_skill r)) = strip (lower v)) df"

definition any_true :: "bool list \<Rightarrow> bool" where
  "any_true bs = (True \<in> set bs)"

definition select :: "bool list \<Rightarrow> 'a list \<Rightarrow> 'a list" where
  "select bs df = map fst (filter snd (zip df bs))"

definition not_found :: "string \<Rightarrow> string \<Rightarrow> string" where
  "not_found col v = col @ '' '' @ apos @ v @ apos @ '' not found''"

text \<open>
  The validation and filtering steps that \<open>list_skills\<close> and \<open>get_lightcast_ready_df\<close>
  both spell out: a given filter must match some row of the frame, else \<open>ValueError\<close> is
  raised with the filter's name and value (\<open>ctx\<close> is the end of the message); a given
  filter selects the rows it matches.
\<close>

definition validate_id :: "string option \<Rightarrow> skill_row list \<Rightarrow> string \<Rightarrow> error + unit" where
  "validate_id a df ctx =
     (case given a of
        None \<Rightarrow> Inr ()
      | Some v \<Rightarrow>
          if \<not> any_true (id_mask v df)
          then Inl (ValueError (not_found ''remote_skill_id'' v @ ctx))
          else Inr ())"

definition validate_contains ::
  "lib \<Rightarrow> (skill_row \<Rightarrow> string) \<Rightarrow> string \<Rightarrow> string option \<Rightarrow> skill_row list \<Rightarrow> string
     \<Rightarrow> error + unit" where
  "validate_contains L col name a df ctx =
     (case given a of
        None \<Rightarrow> Inr ()
      | Some v \<Rightarrow>
          (case contains_mask L col v df of
             Inl e \<Rightarrow> Inl e
           | Inr bs \<Rightarrow>
               if \<not> any_true bs then Inl (ValueError (not_found name v @ ctx))
               else Inr ()))"

definition filter_id :: "string option \<Rightarrow> skill_row list \<Rightarrow> skill_row list" where
  "filter_id a df =
     (case given a of
        None \<Rightarrow> df
      | Some v \<Rightarrow> select (id_mask v df) df)"

definition filter_contains ::
  "lib \<Rightarrow> (skill_row \<Rightarrow> string) \<Rightarrow> string option \<Rightarrow> skill_row list \<Rightarrow> error + skill_row list" where
  "filter_contains L col a df =
     (case given a of
        None \<Rightarrow> Inr df
      | Some v \<Rightarrow>
          (case contains_mask L col v df of
             Inl e \<Rightarrow> Inl e
           | Inr bs \<Rightarrow> Inr (select bs df)))"

text \<open>
  \<open>list_skills\<close>: every given filter is validated against the whole frame first, in the
  order of the source; the filters are applied afterwards, one after the other.
\<close>

definition list_skills ::
  "lib \<Rightarrow> string option \<Rightarrow> string option \<Rightarrow> string option \<Rightarrow> files
     \<Rightarrow> error + skill_row list" where
  "list_skills L remote_id workday lightcast fs =
     (case load_df L fs of
        Inl e \<Rightarrow> Inl e
      | Inr df \<Rightarrow>
     (case validate_id remote_id df [] of
        Inl e \<Rightarrow> Inl e
      | Inr _ \<Rightarrow>
     (case validate_contains L workday_skill ''workday_skill'' workday df [] of
        Inl e \<Rightarrow> Inl e
      | Inr _ \<Rightarrow>
     (case validate_contains L lightcast_skill ''lightcast_skill'' lightcast df [] of
        Inl e \<Rightarrow> Inl e
      | Inr _ \<Rightarrow>
     (case filter_contains L workday_skill workday (filter_id remote_id df) of
        Inl e \<Rightarrow> Inl e
      | Inr filtered \<Rightarrow> filter_contains L lightcast_skill lightcast filtered)))))"

text \<open>
  \<open>update_lightcast_skill\<close>: \<open>df.loc[mask, "lightcast_skill"] = new_lightcast_skill\<close>
  overwrites the cell in the rows of the mask; the frame is saved only after the check.
  The operations that write return the files next to their result.
\<close>

definition assign_lightcast :: "bool list \<Rightarrow> string \<Rightarrow> skill_row list \<Rightarrow> skill_row list" where
  "assign_lightcast bs v df =
     map (\<lambda>(r, b). if b then r \<lparr> lightcast_skill := v \<rparr> else r) (zip df bs)"

definition update_lightcast_skill ::
  "lib \<Rightarrow> string \<Rightarrow> string \<Rightarrow> files \<Rightarrow> (error + unit) \<times> files" where
  "update_lightcast_skill L workday new_lightcast fs =
     (case load_df L fs of
        Inl e \<Rightarrow> (Inl e, fs)
      | Inr df \<Rightarrow>
          let bs = exact_mask workday df
          in if \<not> any_true bs then (Inl (ValueError ''Workday skill not found''), fs)
             else save_df L (assign_lightcast bs new_lightcast df) fs)"

text \<open>
  \<open>delete_skill\<close>: the \<open>if\<close>/\<open>elif\<close> chain looks at \<open>remote_skill_id\<close> first and at
  \<open>workday_skill\<close> only when no \<open>remote_skill_id\<close> is given.
\<close>

definition delete_skill ::
  "lib \<Rightarrow> string option \<Rightarrow> string option \<Rightarrow> files \<Rightarrow> (error + unit) \<times> files" where
  "delete_skill L remote_id workday fs =
     (if given remote_id = None \<and> given workday = None
      then (Inl (ValueError ''Either remote_skill_id or workday_skill must be provided''), fs)
      else
        case load_df L fs of
          Inl e \<Rightarrow> (Inl e, fs)
        | Inr df \<Rightarrow>
        (case given remote_id of
          Some v \<Rightarrow>
            let bs = id_mask v df
            in if \<not> any_true bs then (Inl (ValueError (not_found ''remote_skill_id'' v)), fs)
               else save_df L (select (map Not bs) df) fs
        | None \<Rightarrow>
            (case given workday of
               Some w \<Rightarrow>
                 let bs = exact_mask w df
                 in if \<not> any_true bs then (Inl (ValueError (not_found ''workday_skill'' w)), fs)
                    else save_df L (select (map Not bs) df) fs
             | None \<Rightarrow> save_df L df fs)))"

text \<open>
  \<open>get_lightcast_ready_df\<close>: the rows with a non-blank \<open>lightcast_skill\<close>, then the
  optional filters.
\<close>

definition get_lightcast_ready_df ::
  "lib \<Rightarrow> string option \<Rightarrow> string option \<Rightarrow> files \<Rightarrow> error + skill_row list" where
  "get_lightcast_ready_df L remote_id workday fs =
     (case load_df L fs of
        Inl e \<Rightarrow> Inl e
      | Inr df \<Rightarrow>
     (let filtered = select (map (\<lambda>r. strip (lightcast_skill r) \<noteq> []) df) df
      in if filtered = [] then Inl (ValueError ''No records with valid lightcast_skill found'')
         else
     (case validate_id remote_id filtered '' in lightcast-ready records'' of
        Inl e \<Rightarrow> Inl e
      | Inr _ \<Rightarrow>
     (case validate_contains L workday_skill ''workday_skill'' workday filtered
             '' in lightcast-ready records'' of
        Inl e \<Rightarrow> Inl e
      | Inr _ \<Rightarrow> filter_contains L workday_skill workday (filter_id remote_id filtered)))))"

text \<open>
  The library as the examples of this theory use it: the missing-value tokens of
  \<open>read_csv\<close>'s default settings, and a spreadsheet export that refuses the control
  characters that a worksheet cannot hold, at the first such cell, the frame read
  column by column. The patterns of the examples hold no metacharacter, so that
  \<open>re_search\<close> is never consulted.
\<close>

definition na_values :: "string list" where
  "na_values =
     ['''', ''#N/A'', ''#N/A N/A'', ''#NA'', ''-1.#IND'', ''-1.#QNAN'', ''-NaN'', ''-nan'',
      ''1.#IND'', ''1.#QNAN'', ''<NA>'', ''N/A'', ''NA'', ''NULL'', ''NaN'', ''None'',
      ''n/a'', ''nan'', ''null'']"

definition illegal_char :: "char \<Rightarrow> bool" where
  "illegal_char c =
     (let n = (of_char c :: nat)
      in n \<le> 8 \<or> n = 11 \<or> n = 12 \<or> (14 \<le> n \<and> n \<le> 31))"

definition cells_by_column :: "skill_row list \<Rightarrow> string list" where
  "cells_by_column df =
     concat (map (\<lambda>col. map col df)
       [remote_skill_id, workday_skill, lightcast_skill, lightcast_skill_id,
        skill_type, category, status])"

definition plain_lib :: lib where
  "plain_lib =
     \<lparr> na_token = (\<lambda>s. s \<in> set na_values),
       re_search = (\<lambda>pat. Inl ''a pattern with a metacharacter''),
       to_excel_error =
         (\<lambda>df. case List.find (list_ex illegal_char) (cells_by_column df) of
                  None \<Rightarrow> None
                | Some cell \<Rightarrow> Some (cell @ '' cannot be used in worksheets.'')) \<rparr>"

definition mk_row :: "string \<Rightarrow> string \<Rightarrow> string \<Rightarrow> skill_row" where
  "mk_row i w l =
     \<lparr> remote_skill_id = i, workday_skill = w, lightcast_skill = l, lightcast_skill_id = [],
       skill_type = [], category = [], status = ''SUCCESS'' \<rparr>"

definition mk_files :: "skill_row list \<Rightarrow> files" where
  "mk_files rows = \<lparr> csv_file = Some (Table rows), xlsx_file = Some (Sheet rows) \<rparr>"

text \<open>
  Predicates for stating what the store's operations do. A given filter hits a row when
  the row passes it: \<open>id_hit\<close> for \<open>remote_skill_id\<close> (equal after stripping),
  \<open>contains_hit\<close> for the two skill filters (the lower-cased value is a substring of
  the lower-cased cell), \<open>exact_hit\<close> for the selector of \<open>update\<close> and \<open>delete\<close>
  (equal after lower-casing and stripping). A filter that is not given hits every row.
  \<open>plain_filter\<close> says that a given filter value holds no metacharacter,
  \<open>unmatched\<close> that a given filter hits no row of the frame, and \<open>is_value_error\<close>
  that a result is a \<open>ValueError\<close> raised by the repository, such as the not-found
  errors.
\<close>

definition id_hit :: "string option \<Rightarrow> skill_row \<Rightarrow> bool" where
  "id_hit a r = (case given a of None \<Rightarrow> True | Some v \<Rightarrow> strip (remote_skill_id r) = strip v)"

definition contains_hit :: "(skill_row \<Rightarrow> string) \<Rightarrow> string option \<Rightarrow> skill_row \<Rightarrow> bool" where
  "contains_hit col a r =
     (case given a of None \<Rightarrow> True | Some v \<Rightarrow> sublist (lower v) (lower (col r)))"

definition exact_hit :: "string \<Rightarrow> skill_row \<Rightarrow> bool" where
  "exact_hit w r = (strip (lower (workday_skill r)) = strip (lower w))"

definition plain_filter :: "string option \<Rightarrow> bool" where
  "plain_filter a = (case given a of None \<Rightarrow> True | Some v \<Rightarrow> plain v)"

definition unmatched :: "(skill_row \<Rightarrow> bool) \<Rightarrow> string option \<Rightarrow> skill_row list \<Rightarrow> bool" where
  "unmatched p a df = (given a \<noteq> None \<and> \<not> list_ex p df)"

definition is_value_error :: "error + 'a \<Rightarrow> bool" where
  "is_value_error x = (case x of Inl (ValueError _) \<Rightarrow> True | _ \<Rightarrow> False)"

text \<open>
  The filters of \<open>list\<close> in the specification's words: \<open>remote_skill_id\<close> by trimmed
  exact match, the two skill filters by case-insensitive substring containment, all
  given filters at once.
\<close>

definition spec_list_match ::
  "string option \<Rightarrow> string option \<Rightarrow> string option \<Rightarrow> skill_row \<Rightarrow> bool" where
  "spec_list_match remote_id workday lightcast r =
     ((case remote_id of None \<Rightarrow> True | Some v \<Rightarrow> strip (remote_skill_id r) = strip v) \<and>
      (case workday of None \<Rightarrow> True | Some v \<Rightarrow> sublist (lower v) (lower (workday_skill r))) \<and>
      (case lightcast of None \<Rightarrow> True
       | Some v \<Rightarrow> sublist (lower v) (lower (lightcast_skill r))))"

text \<open>Stores for the examples.\<close>

definition no_files :: files where
  "no_files = \<lparr> csv_file = None, xlsx_file = None \<rparr>"

definition two_skills :: files where
  "two_skills = mk_files [mk_row ''1'' ''Java'' ''Java (Programming Language)'',
                          mk_row ''2'' ''JavaScript'' ''JavaScript (Programming Language)'']"

definition three_skills :: files where
  "three_skills = mk_files [mk_row ''1'' ''Java'' [], mk_row ''2'' ''Python'' ''   '',
                            mk_row ''3'' ''Go'' ''Go (Programming Language)'']"

section \<open>The API layer (main.py)\<close>

text \<open>
  A handler returns a list of records as JSON or a \<open>FileResponse\<close> for a spreadsheet
  (modelled by the content of the file it names, \<open>None\<close> when the file is absent), or
  raises \<open>HTTPException\<close> with a status code and a detail. \<open>str_of\<close> is \<open>str(e)\<close>, the
  text of the exception; \<open>value_error\<close> says that an \<open>except ValueError\<close> clause
  catches it. The handlers of main.py that share a name with the function of
  skill\_store.py they call carry the prefix \<open>main\<close>.
\<close>

datatype response =
    Records "skill_row list"
  | FileResponse "xlsx_content option"
  | HTTPException nat string

definition str_of :: "error \<Rightarrow> string" where
  "str_of e = (case e of ValueError m \<Rightarrow> m | EmptyDataError m \<Rightarrow> m | OtherError m \<Rightarrow> m)"

definition value_error :: "error \<Rightarrow> bool" where
  "value_error e = (case e of ValueError _ \<Rightarrow> True | EmptyDataError _ \<Rightarrow> True | OtherError _ \<Rightarrow> False)"

text \<open>\<open>GET /skills\<close>: a single \<open>except Exception\<close> clause.\<close>

definition main_list_skills ::
  "lib \<Rightarrow> string option \<Rightarrow> string option \<Rightarrow> string option \<Rightarrow> files \<Rightarrow> response" where
  "main_list_skills L remote_id workday lightcast fs =
     (case list_skills L remote_id workday lightcast fs of
        Inr rows \<Rightarrow> Records rows
      | Inl e \<Rightarrow> HTTPException 500 (str_of e))"

text \<open>\<open>PUT /skills/update\<close>: \<open>except ValueError\<close> before \<open>except Exception\<close>.\<close>

record SkillUpdateRequest =
  req_workday_skill :: string
  req_lightcast_skill :: string

definition update_skill :: "lib \<Rightarrow> SkillUpdateRequest \<Rightarrow> files \<Rightarrow> response \<times> files" where
  "update_skill L payload fs =
     (case update_lightcast_skill L (req_workday_skill payload) (req_lightcast_skill payload) fs of
        (Inr _, fs') \<Rightarrow> (FileResponse (xlsx_file fs'), fs')
      | (Inl e, fs') \<Rightarrow>
          (if value_error e then HTTPException 404 (str_of e) else HTTPException 500 (str_of e), fs'))"

text \<open>\<open>DELETE /skills/delete\<close>.\<close>

definition main_delete_skill ::
  "lib \<Rightarrow> string option \<Rightarrow> string option \<Rightarrow> files \<Rightarrow> response \<times> files" where
  "main_delete_skill L remote_id workday fs =
     (case delete_skill L remote_id workday fs of
        (Inr _, fs') \<Rightarrow> (FileResponse (xlsx_file fs'), fs')
      | (Inl e, fs') \<Rightarrow>
          (if value_error e then HTTPException 400 (str_of e) else HTTPException 500 (str_of e), fs'))"

text \<open>
  \<open>GET /skills/lightcast-ready\<close>: with \<open>download\<close> the frame is exported to a
  spreadsheet of its own and that file is returned.
\<close>

definition list_lightcast_ready_skills ::
  "lib \<Rightarrow> string option \<Rightarrow> string option \<Rightarrow> bool \<Rightarrow> files \<Rightarrow> response" where
  "list_lightcast_ready_skills L remote_id workday download fs =
     (case get_lightcast_ready_df L remote_id workday fs of
        Inr df \<Rightarrow>
          if download
          then (case to_excel_error L df of
                  Some msg \<Rightarrow> HTTPException 500 msg
                | None \<Rightarrow> FileResponse (Some (Sheet df)))
          else Records df
      | Inl e \<Rightarrow> if value_error e then HTTPException 404 (str_of e) else HTTPException 500 (str_of e))"

section \<open>Normalization (lightcast\_service.py)\<close>

text \<open>
  One row of the uploaded table: the cell of \<open>remote_skill_id\<close> and the text
  \<open>str(row["skill_name"])\<close>.
\<close>

record upload_row =
  up_remote_skill_id :: string
  skill_name :: string

text \<open>
  One entry of the \<open>data\<close> list that the taxonomy search returns. \<open>s["name"]\<close> and
  \<open>s["id"]\<close> raise \<open>KeyError\<close> when the key is missing (\<open>None\<close> here);
  \<open>s.get("type")\<close> and \<open>s.get("category")\<close> give \<open>None\<close>, which the CSV writer
  writes as an empty cell.
\<close>

record taxonomy_skill =
  s_name :: "string option"
  s_id :: "string option"
  s_type :: "string option"
  s_category :: "string option"

text \<open>
  What the request for one skill yields inside the \<open>try\<close> block: an exception
  (\<open>requests.get\<close>, \<open>raise_for_status\<close> or \<open>r.json()\<close> raised), or the list
  \<open>r.json().get("data", [])\<close>.
\<close>

datatype lookup = RequestFailed | Data "taxonomy_skill list"

definition cell_of :: "string option \<Rightarrow> string" where
  "cell_of v = (case v of None \<Rightarrow> [] | Some s \<Rightarrow> s)"

definition unmatched_record :: "upload_row \<Rightarrow> string \<Rightarrow> string \<Rightarrow> skill_row" where
  "unmatched_record row skill st =
     \<lparr> remote_skill_id = up_remote_skill_id row, workday_skill = skill, lightcast_skill = [],
       lightcast_skill_id = [], skill_type = [], category = [], status = st \<rparr>"

text \<open>
  The body of the loop for one row: \<open>None\<close> when the row is skipped (\<open>continue\<close>),
  else the record appended to \<open>results\<close>. Any exception of the \<open>try\<close> block, a
  \<open>KeyError\<close> included, ends in the \<open>except\<close> clause.
\<close>

definition normalize_row :: "(string \<Rightarrow> lookup) \<Rightarrow> upload_row \<Rightarrow> skill_row option" where
  "normalize_row search row =
     (let skill = strip (skill_name row) in
      if skill = [] then None
      else Some
        (case search skill of
           RequestFailed \<Rightarrow> unmatched_record row skill ''ERROR''
         | Data [] \<Rightarrow> unmatched_record row skill ''NO_MATCH''
         | Data (s # _) \<Rightarrow>
             (case (s_name s, s_id s) of
                (Some n, Some i) \<Rightarrow>
                  \<lparr> remote_skill_id = up_remote_skill_id row, workday_skill = skill,
                    lightcast_skill = n, lightcast_skill_id = i,
                    skill_type = cell_of (s_type s), category = cell_of (s_category s),
                    status = ''SUCCESS'' \<rparr>
              | _ \<Rightarrow> unmatched_record row skill ''ERROR'')))"

text \<open>
  \<open>normalize_file\<close>: \<open>token\<close> is the outcome of \<open>get_lightcast_token\<close> (\<open>Inl\<close> when it
  raises), \<open>search i\<close> the taxonomy search as it answers the request for the \<open>i\<close>-th
  row, \<open>sfx\<close> the suffix of the uploaded file and \<open>rows\<close> the table read from it. The
  results overwrite both files of the store. \<open>pd.DataFrame(results)\<close> has the columns
  of its records: with no record it has none, and the CSV file is written without a
  header line.
\<close>

fun results_from :: "(nat \<Rightarrow> string \<Rightarrow> lookup) \<Rightarrow> nat \<Rightarrow> upload_row list \<Rightarrow> skill_row list" where
  "results_from search i [] = []"
| "results_from search i (row # rows) =
     (case normalize_row (search i) row of
        None \<Rightarrow> results_from search (Suc i) rows
      | Some rec \<Rightarrow> rec # results_from search (Suc i) rows)"

definition normalize_file ::
  "lib \<Rightarrow> string + string \<Rightarrow> (nat \<Rightarrow> string \<Rightarrow> lookup) \<Rightarrow> string \<Rightarrow> upload_row list \<Rightarrow> files
     \<Rightarrow> (error + unit) \<times> files" where
  "normalize_file L token search sfx rows fs =
     (case token of
        Inl msg \<Rightarrow> (Inl (OtherError msg), fs)
      | Inr _ \<Rightarrow>
          if lower sfx \<in> set [''.xlsx'', ''.xls''] \<or> lower sfx = ''.csv''
          then (let results = results_from search 0 rows
                in write_files L (if results = [] then NoColumns else Table results) results fs)
          else (Inl (ValueError ''Unsupported file format. Upload CSV or Excel.''), fs))"

text \<open>A row is processed when its skill name is not blank; the others are skipped.\<close>

definition kept :: "upload_row \<Rightarrow> bool" where
  "kept row = (strip (skill_name row) \<noteq> [])"

text \<open>The example of the specification: one uploaded row and the match of the taxonomy.\<close>

definition python_row :: upload_row where
  "python_row = \<lparr> up_remote_skill_id = ''42'', skill_name = ''python programming'' \<rparr>"

definition python_match :: taxonomy_skill where
  "python_match =
     \<lparr> s_name = Some ''Python (Programming Language)'', s_id = Some ''KS1200364C9C1LK3V5Q1'',
       s_type = None, s_category = None \<rparr>"

definition python_search :: "nat \<Rightarrow> string \<Rightarrow> lookup" where
  "python_search i q = Data [python_match]"

text \<open>An upload whose only row has a blank skill name: no row is processed.\<close>

definition blank_upload :: "upload_row list" where
  "blank_upload = [\<lparr> up_remote_skill_id = ''7'', skill_name = ''  '' \<rparr>]"

definition headerless :: files where
  "headerless = \<lparr> csv_file = Some NoColumns, xlsx_file = Some (Sheet []) \<rparr>"

section \<open>Course crawling and mapping (coursera\_service.py)\<close>

subsection \<open>Skill extraction from a course page\<close>

text \<open>
  A parsed page: text nodes and elements with a tag name and children. The crawler
  looks at tag names and texts only. \<open>nodes_of\<close> lists a node and its descendants in
  document order; \<open>n.next_elements\<close> of a node is what follows it in that order, its own
  descendants first.
\<close>

datatype node = Text string | Elem string "node list"

fun nodes_of :: "node \<Rightarrow> node list" where
  "nodes_of (Text s) = [Text s]"
| "nodes_of (Elem t cs) = Elem t cs # concat (map nodes_of cs)"

definition all_nodes :: "node list \<Rightarrow> node list" where
  "all_nodes soup = concat (map nodes_of soup)"

definition has_tag :: "string \<Rightarrow> node \<Rightarrow> bool" where
  "has_tag t n = (case n of Text _ \<Rightarrow> False | Elem u _ \<Rightarrow> u = t)"

text \<open>
  \<open>n.get_text(strip=True)\<close>: the strings below \<open>n\<close>, each stripped, the empty ones left
  out, concatenated.
\<close>

definition strings_of :: "node \<Rightarrow> string list" where
  "strings_of n = concat (map (\<lambda>m. case m of Text s \<Rightarrow> [s] | Elem _ _ \<Rightarrow> []) (nodes_of n))"

definition get_text :: "node \<Rightarrow> string" where
  "get_text n = concat (filter (\<lambda>s. s \<noteq> []) (map strip (strings_of n)))"

text \<open>\<open>n.find_all(t)\<close>: the descendants of \<open>n\<close> with tag \<open>t\<close>, in document order.\<close>

definition find_all :: "string \<Rightarrow> node \<Rightarrow> node list" where
  "find_all t n = filter (has_tag t) (tl (nodes_of n))"

text \<open>\<open>n.find_next(t)\<close>, given the nodes that follow \<open>n\<close>: the first with tag \<open>t\<close>.\<close>

definition find_next :: "string \<Rightarrow> node list \<Rightarrow> node option" where
  "find_next t following = List.find (has_tag t) following"

definition skill_heading :: "node \<Rightarrow> bool" where
  "skill_heading n = (has_tag ''h2'' n \<and> sublist ''skill'' (lower (get_text n)))"

definition link_texts :: "node \<Rightarrow> string list" where
  "link_texts ul = filter (\<lambda>s. s \<noteq> []) (map get_text (find_all ''a'' ul))"

text \<open>
  The loop over \<open>soup.find_all("h2")\<close>, run along the document order: at every \<open>h2\<close>
  whose text contains \<open>skill\<close> the texts of the links of the next \<open>ul\<close> are appended to
  \<open>skills\<close>; a heading with no \<open>ul\<close> after it is passed over.
\<close>

fun collect_skills :: "node list \<Rightarrow> string list" where
  "collect_skills [] = []"
| "collect_skills (n # following) =
     (if skill_heading n
      then (case find_next ''ul'' following of
              None \<Rightarrow> collect_skills following
            | Some ul \<Rightarrow> link_texts ul @ collect_skills following)
      else collect_skills following)"

text \<open>
  \<open>fetch_course_skills\<close>: \<open>web url\<close> is the parsed page behind \<open>url\<close>, \<open>None\<close> when
  the request or the parser raises; every exception ends in the empty string.
\<close>

definition fetch_course_skills :: "(string \<Rightarrow> node list option) \<Rightarrow> string \<Rightarrow> string" where
  "fetch_course_skills web course_url =
     (case web course_url of
        None \<Rightarrow> []
      | Some soup \<Rightarrow>
          join '', '' (sorted_list_of_set (set (collect_skills (all_nodes soup)))))"

text \<open>The web for the examples: every address serves one page, or none can be reached.\<close>

definition serve :: "node list \<Rightarrow> string \<Rightarrow> node list option" where
  "serve page url = Some page"

definition offline :: "string \<Rightarrow> node list option" where
  "offline url = None"

text \<open>
  The extraction in the specification's words: the first heading whose text contains
  \<open>skill\<close>, the first list after it, the texts of its links, deduplicated, sorted and
  joined.
\<close>

definition spec_course_skills :: "node list \<Rightarrow> string" where
  "spec_course_skills soup =
     (case dropWhile (\<lambda>n. \<not> skill_heading n) (all_nodes soup) of
        [] \<Rightarrow> []
      | h # following \<Rightarrow>
          (case find_next ''ul'' following of
             None \<Rightarrow> []
           | Some ul \<Rightarrow> join '', '' (sorted_list_of_set (set (link_texts ul)))))"

subsection \<open>Aggregation of the course mapping\<close>

text \<open>One row of \<open>out_df\<close>, as \<open>process_coursera\<close> emits it for one course.\<close>

record course_row =
  c_remote_skill_id :: string
  c_workday_skill :: string
  c_lightcast_skill :: string
  c_lightcast_skill_id :: string
  search_skill_used :: string
  search_skill_source :: string
  course_name :: string
  course_slug :: string
  course_link :: string
  course_skills :: string

type_synonym group_key = "string \<times> string \<times> string \<times> string \<times> string \<times> string"

definition key_of :: "course_row \<Rightarrow> group_key" where
  "key_of r =
     (c_remote_skill_id r, c_workday_skill r, c_lightcast_skill r, c_lightcast_skill_id r,
      search_skill_used r, search_skill_source r)"

text \<open>The four aggregation functions of \<open>.agg\<close>, applied to the column of one group.\<close>

definition agg_plain :: "string list \<Rightarrow> string" where
  "agg_plain x = join '', '' (fromkeys x)"

definition agg_skills :: "string list \<Rightarrow> string" where
  "agg_skills x = join '', '' (fromkeys (split (join '', '' x) '', ''))"

definition agg_group :: "group_key \<Rightarrow> course_row list \<Rightarrow> course_row" where
  "agg_group k g =
     (case k of (k1, k2, k3, k4, k5, k6) \<Rightarrow>
        \<lparr> c_remote_skill_id = k1, c_workday_skill = k2, c_lightcast_skill = k3,
          c_lightcast_skill_id = k4, search_skill_used = k5, search_skill_source = k6,
          course_name = agg_plain (map course_name g),
          course_slug = agg_plain (map course_slug g),
          course_link = agg_plain (map course_link g),
          course_skills = agg_skills (map course_skills g) \<rparr>)"

text \<open>
  \<open>out_df.groupby(keys, as_index=False).agg(...)\<close>: one row per key, the keys in sorted
  order, each group holding its rows in the order of \<open>out_df\<close>.
\<close>

definition aggregate :: "course_row list \<Rightarrow> course_row list" where
  "aggregate out_df =
     map (\<lambda>k. agg_group k (filter (\<lambda>r. key_of r = k) out_df))
       (sort (remdups (map key_of out_df)))"

text \<open>
  Order-preserving deduplication in the specification's words: an element is kept
  where it occurs for the first time.
\<close>

definition first_occurrences :: "'a list \<Rightarrow> 'a list" where
  "first_occurrences xs =
     map (\<lambda>i. xs ! i) (filter (\<lambda>i. xs ! i \<notin> set (take i xs)) [0..<length xs])"

text \<open>Two emitted rows of one group, as in the example of the specification.\<close>

definition course_a :: course_row where
  "course_a =
     \<lparr> c_remote_skill_id = ''42'', c_workday_skill = ''python programming'',
       c_lightcast_skill = ''Python'', c_lightcast_skill_id = ''KS1'',
       search_skill_used = ''Python'', search_skill_source = ''LIGHTCAST'',
       course_name = ''Python for Everybody'', course_slug = ''python'',
       course_link = ''https://www.coursera.org/learn/python'', course_skills = ''A, B'' \<rparr>"

definition course_b :: course_row where
  "course_b = course_a \<lparr> course_slug := ''python-2'', course_skills := ''B, C'' \<rparr>"

text \<open>
  The texts that the crawler collects from a page, said without the loop: the non-empty
  texts of the links inside the first \<open>ul\<close> after a heading, for every \<open>h2\<close> heading of
  the page whose text contains \<open>skill\<close>.
\<close>

definition heading_links :: "node list \<Rightarrow> string set" where
  "heading_links ns =
     {t. t \<noteq> [] \<and>
         (\<exists>i ul a. i < length ns \<and> skill_heading (ns ! i)
            \<and> find_next ''ul'' (drop (Suc i) ns) = Some ul
            \<and> a \<in> set (find_all ''a'' ul) \<and> t = get_text a)}"

text \<open>
  A course page with two headings that mention skills, each immediately followed by a
  list of links.
\<close>

definition gain_list :: node where
  "gain_list =
     Elem ''ul''
       [Elem ''li'' [Elem ''a'' [Text ''Python '']],
        Elem ''li'' [Elem ''a'' [Text ''Data Analysis'']]]"

definition recommended_list :: node where
  "recommended_list =
     Elem ''ul''
       [Elem ''li'' [Elem ''a'' [Text ''Excel'']],
        Elem ''li'' [Elem ''a'' [Text ''Python'']]]"

definition two_headings :: "node list" where
  "two_headings =
     [Elem ''html'' [Elem ''body''
        [Elem ''h2'' [Text '' Skills you will gain ''], gain_list,
         Elem ''h2'' [Text ''Recommended SKILLS''], recommended_list]]]"

section \<open>Properties of the skill store\<close>

subsection \<open>Masks, selection, reading and writing\<close>

lemma select_map: "select (map p df) df = filter p df"
  by (induction df) (simp_all add: select_def)

lemma any_true_map: "any_true (map p df) = (\<exists>r\<in>set df. p r)"
  by (auto simp: any_true_def)

lemma exact_mask_eq: "exact_mask w df = map (exact_hit w) df"
  by (simp add: exact_mask_def exact_hit_def[abs_def])

lemma all_dropWhile: "(\<forall>x\<in>set (dropWhile P s). P x) \<longleftrightarrow> (\<forall>x\<in>set s. P x)"
  by (induction s) auto

lemma strip_Nil_iff: "strip s = [] \<longleftrightarrow> (\<forall>c\<in>set s. isspace c)"
  by (simp add: strip_def dropWhile_eq_Nil_conv all_dropWhile)








lemma char_of_eqD: "char_of (m::nat) = c \<Longrightarrow> m mod 256 = (of_char c :: nat)"
  by auto

lemma metachar_lower_char: "metachar (lower_char c) \<Longrightarrow> metachar c"
  by (auto simp: metachar_def lower_char_def Let_def split: if_splits dest!: char_of_eqD)

lemma save_df_export_error:
  "to_excel_error L df = Some msg \<Longrightarrow>
   save_df L df fs
     = (Inl (OtherError msg), fs \<lparr> csv_file := Some (Table df), xlsx_file := Some Partial \<rparr>)"
  by (simp add: save_df_def write_files_def)

lemma load_df_readable:
  "csv_file fs \<noteq> Some NoColumns \<Longrightarrow>
   load_df L fs = Inr (case csv_file fs of Some (Table rows) \<Rightarrow> map (read_row L) rows | _ \<Rightarrow> [])"
  by (simp add: load_df_def split: option.splits csv_content.splits)

subsection \<open>Strings: stripping, lower case and plain patterns\<close>

lemma plain_lower: "plain v \<Longrightarrow> plain (lower v)"
  by (auto simp: plain_def lower_def list_all_iff dest: metachar_lower_char)




lemma contains_mask_plain:
  "plain v \<Longrightarrow>
   contains_mask L col v df = Inr (map (\<lambda>r. sublist (lower v) (lower (col r))) df)"
  by (simp add: contains_mask_def str_contains_def plain_lower comp_def)

subsection \<open>Validation and filtering, step by step\<close>

lemma validate_id_eq:
  "validate_id a df ctx =
     (if unmatched (id_hit a) a df
      then Inl (ValueError (not_found ''remote_skill_id'' (the (given a)) @ ctx)) else Inr ())"
  by (auto simp: validate_id_def unmatched_def id_hit_def id_mask_def any_true_map list_ex_iff
      split: option.splits)

lemma validate_contains_eq:
  "plain_filter a \<Longrightarrow>
   validate_contains L col name a df ctx =
     (if unmatched (contains_hit col a) a df
      then Inl (ValueError (not_found name (the (given a)) @ ctx)) else Inr ())"
  by (auto simp: validate_contains_def unmatched_def contains_hit_def contains_mask_plain
      plain_filter_def any_true_map list_ex_iff split: option.splits)

lemma filter_id_eq: "filter_id a df = filter (id_hit a) df"
  by (cases "given a") (simp_all add: filter_id_def id_hit_def[abs_def] id_mask_def select_map)

lemma filter_contains_eq:
  "plain_filter a \<Longrightarrow> filter_contains L col a df = Inr (filter (contains_hit col a) df)"
  by (cases "given a")
     (simp_all add: filter_contains_def contains_hit_def[abs_def] contains_mask_plain
        plain_filter_def select_map)

lemma filter_contains_subset:
  "filter_contains L col a df = Inr rows \<Longrightarrow> set rows \<subseteq> set df"
  by (auto simp: filter_contains_def contains_mask_def str_contains_def select_def
      split: option.splits sum.splits if_splits dest!: set_zip_leftD)

lemma spec_list_match_given:
  "spec_list_match (given remote_id) (given workday) (given lightcast) r
     = (id_hit remote_id r \<and> contains_hit workday_skill workday r
        \<and> contains_hit lightcast_skill lightcast r)"
  by (simp add: spec_list_match_def id_hit_def contains_hit_def)

lemma list_skills_eq:
  assumes "load_df L fs = Inr df" and "plain_filter workday" and "plain_filter lightcast"
  shows "list_skills L remote_id workday lightcast fs =
     (if unmatched (id_hit remote_id) remote_id df
      then Inl (ValueError (not_found ''remote_skill_id'' (the (given remote_id))))
      else if unmatched (contains_hit workday_skill workday) workday df
      then Inl (ValueError (not_found ''workday_skill'' (the (given workday))))
      else if unmatched (contains_hit lightcast_skill lightcast) lightcast df
      then Inl (ValueError (not_found ''lightcast_skill'' (the (given lightcast))))
      else Inr (filter (spec_list_match (given remote_id) (given workday) (given lightcast)) df))"
  using assms
  by (simp add: list_skills_def validate_id_eq validate_contains_eq filter_id_eq
      filter_contains_eq spec_list_match_given[abs_def] conj_commute conj_left_commute)

lemma list_skills_subset:
  assumes "list_skills L remote_id workday lightcast fs = Inr rows"
  shows "\<exists>df. load_df L fs = Inr df \<and> set rows \<subseteq> set df"
proof -
  from assms obtain df mid where l: "load_df L fs = Inr df"
    and m: "filter_contains L workday_skill workday (filter_id remote_id df) = Inr mid"
    and r: "filter_contains L lightcast_skill lightcast mid = Inr rows"
    by (auto simp: list_skills_def split: sum.splits)
  have "set mid \<subseteq> set df"
    using filter_contains_subset[OF m] by (auto simp: filter_id_eq)
  with filter_contains_subset[OF r] l show ?thesis by blast
qed



lemma list_skills_no_filter:
  "load_df L fs = Inr df \<Longrightarrow> list_skills L None None None fs = Inr df"
  by (simp add: list_skills_def validate_id_def validate_contains_def filter_id_def
      filter_contains_def given_def)

subsection \<open>Listing with filters\<close>

text \<open>
  Claim C1 says that \<open>list\<close> raises a not-found error whenever the given filters, applied
  together, select no row. The code validates each filter on its own against the whole
  store and only then applies them together. In the store \<open>two_skills\<close> the id \<open>1\<close>
  belongs to the row of Java and only the other row contains \<open>javascript\<close>: both filters
  pass their validation, no row passes both, and \<open>list\<close> returns the empty list.
\<close>

theorem list_skills_empty_result:
  "given (Some ''1'') \<noteq> None \<and> given (Some ''javascript'') \<noteq> None
   \<and> load_df plain_lib two_skills
       = Inr [mk_row ''1'' ''Java'' ''Java (Programming Language)'',
              mk_row ''2'' ''JavaScript'' ''JavaScript (Programming Language)'']
   \<and> filter (spec_list_match (Some ''1'') (Some ''javascript'') None)
         [mk_row ''1'' ''Java'' ''Java (Programming Language)'',
          mk_row ''2'' ''JavaScript'' ''JavaScript (Programming Language)''] = []
   \<and> list_skills plain_lib (Some ''1'') (Some ''javascript'') None two_skills = Inr []"
  by code_simp

text \<open>
  Claim C1, amended: for every store that \<open>load_df\<close> reads and every call to \<open>list\<close>
  whose given skill filters hold no metacharacter of regular expressions, with
  \<open>remote_skill_id\<close> matched exactly after trimming and \<open>workday_skill\<close> and
  \<open>lightcast_skill\<close> by case-insensitive substring containment: \<open>list\<close> raises a
  not-found error exactly when some given filter, taken on its own, matches no row of
  the store; otherwise it returns the rows that pass all given filters, and that list
  can be empty.
\<close>

theorem list_skills_not_found_iff:
  assumes "load_df L fs = Inr df" and "plain_filter workday" and "plain_filter lightcast"
  shows "(is_value_error (list_skills L remote_id workday lightcast fs) \<longleftrightarrow>
            unmatched (id_hit remote_id) remote_id df
          \<or> unmatched (contains_hit workday_skill workday) workday df
          \<or> unmatched (contains_hit lightcast_skill lightcast) lightcast df)
       \<and> (\<not> is_value_error (list_skills L remote_id workday lightcast fs) \<longrightarrow>
            list_skills L remote_id workday lightcast fs =
              Inr (filter (spec_list_match (given remote_id) (given workday) (given lightcast)) df))"
  by (simp add: list_skills_eq[OF assms] is_value_error_def)

text \<open>
  The amended claim at work: no row of \<open>two_skills\<close> contains \<open>ruby\<close>, so the call is
  refused although the id filter matches; with \<open>java\<close> the row of id \<open>1\<close> is returned.
\<close>

theorem list_skills_not_found_iff_witness:
  "load_df plain_lib two_skills
       = Inr [mk_row ''1'' ''Java'' ''Java (Programming Language)'',
              mk_row ''2'' ''JavaScript'' ''JavaScript (Programming Language)'']
   \<and> plain_filter (Some ''ruby'') \<and> plain_filter None
   \<and> unmatched (contains_hit workday_skill (Some ''ruby'')) (Some ''ruby'')
        [mk_row ''1'' ''Java'' ''Java (Programming Language)'',
         mk_row ''2'' ''JavaScript'' ''JavaScript (Programming Language)'']
   \<and> is_value_error (list_skills plain_lib (Some ''1'') (Some ''ruby'') None two_skills)
   \<and> list_skills plain_lib (Some ''1'') (Some ''java'') None two_skills
       = Inr [mk_row ''1'' ''Java'' ''Java (Programming Language)'']"
proof -
  let ?df = "[mk_row ''1'' ''Java'' ''Java (Programming Language)'',
              mk_row ''2'' ''JavaScript'' ''JavaScript (Programming Language)'']"
  have l: "load_df plain_lib two_skills = Inr ?df" by code_simp
  have c1: "plain_filter (Some ''ruby'')" by code_simp
  have c2: "plain_filter None" by code_simp
  have u: "unmatched (contains_hit workday_skill (Some ''ruby'')) (Some ''ruby'') ?df"
    by code_simp
  have e: "is_value_error (list_skills plain_lib (Some ''1'') (Some ''ruby'') None two_skills)"
    using list_skills_not_found_iff[OF l c1 c2, of "Some ''1''"] u by blast
  have j: "list_skills plain_lib (Some ''1'') (Some ''java'') None two_skills
       = Inr [mk_row ''1'' ''Java'' ''Java (Programming Language)'']"
    by code_simp
  from l c1 c2 u e j show ?thesis by blast
qed

text \<open>
  Claim C10 says that \<open>list\<close>, called with no filter, raises no error in every state of
  the store file, the empty store included. A normalization that processes no row of
  its upload writes the empty store as a CSV file without a header line; \<open>load_df\<close>
  then raises where for the absent file it returns the empty frame, \<open>list\<close> raises with
  it, and \<open>GET /skills\<close> answers with status 500.
\<close>

theorem list_skills_after_blank_upload:
  "normalize_file plain_lib (Inr ''token'') python_search ''.csv'' blank_upload two_skills
     = (Inr (), headerless)
   \<and> list_skills plain_lib None None None headerless
       = Inl (EmptyDataError ''No columns to parse from file'')
   \<and> main_list_skills plain_lib None None None headerless
       = HTTPException 500 ''No columns to parse from file''"
  by code_simp

subsection \<open>Update, then list\<close>




subsection \<open>Delete\<close>

text \<open>
  Claim C5 says that \<open>delete\<close> raises an error when both selectors are given. The
  \<open>if\<close>/\<open>elif\<close> chain of the code takes \<open>remote_skill_id\<close> and never looks at
  \<open>workday_skill\<close>: the call below deletes the row of id \<open>2\<close> and succeeds.
\<close>

theorem delete_skill_both_selectors:
  "given (Some ''2'') \<noteq> None \<and> given (Some ''java'') \<noteq> None
   \<and> delete_skill plain_lib (Some ''2'') (Some ''java'') two_skills
      = (Inr (), mk_files [mk_row ''1'' ''Java'' ''Java (Programming Language)''])"
  by code_simp

text \<open>
  Claim C5, amended: \<open>delete\<close> requires at least one selector. A call that gives
  neither raises an error. On a store that \<open>load_df\<close> reads, a call that gives
  \<open>remote_skill_id\<close>, with or without \<open>workday_skill\<close>, selects the rows whose
  stripped id equals the stripped selector; a call that gives \<open>workday_skill\<close> only
  selects the rows whose lower-cased, stripped \<open>workday_skill\<close> equals the lower-cased,
  stripped selector. The call fails with not-found when it selects no row, and else
  saves the frame without the selected rows.
\<close>

theorem delete_skill_selectors:
  "(given remote_id = None \<and> given workday = None \<longrightarrow>
      delete_skill L remote_id workday fs =
        (Inl (ValueError ''Either remote_skill_id or workday_skill must be provided''), fs))
   \<and> (\<forall>df v. load_df L fs = Inr df \<and> given remote_id = Some v \<longrightarrow>
      delete_skill L remote_id workday fs =
        (if \<exists>r\<in>set df. strip (remote_skill_id r) = strip v
         then save_df L (filter (\<lambda>r. strip (remote_skill_id r) \<noteq> strip v) df) fs
         else (Inl (ValueError (not_found ''remote_skill_id'' v)), fs)))
   \<and> (\<forall>df w. load_df L fs = Inr df \<and> given remote_id = None \<and> given workday = Some w \<longrightarrow>
      delete_skill L remote_id workday fs =
        (if \<exists>r\<in>set df. exact_hit w r
         then save_df L (filter (\<lambda>r. \<not> exact_hit w r) df) fs
         else (Inl (ValueError (not_found ''workday_skill'' w)), fs)))"
  by (auto simp: delete_skill_def Let_def id_mask_def exact_mask_eq any_true_map
      select_map comp_def map_map)

text \<open>No selector, both selectors, and \<open>workday_skill\<close> alone with and without a match.\<close>

theorem delete_skill_selectors_witness:
  "delete_skill plain_lib None (Some []) two_skills =
     (Inl (ValueError ''Either remote_skill_id or workday_skill must be provided''), two_skills)
   \<and> delete_skill plain_lib (Some '' 2 '') (Some ''java'') two_skills =
       (Inr (), mk_files [mk_row ''1'' ''Java'' ''Java (Programming Language)''])
   \<and> delete_skill plain_lib None (Some '' JAVA'') two_skills =
       (Inr (), mk_files [mk_row ''2'' ''JavaScript'' ''JavaScript (Programming Language)''])
   \<and> delete_skill plain_lib None (Some ''jav'') two_skills =
       (Inl (ValueError (not_found ''workday_skill'' ''jav'')), two_skills)"
proof -
  have g0: "given None = None \<and> given (Some []) = None" by code_simp
  have a: "delete_skill plain_lib None (Some []) two_skills =
     (Inl (ValueError ''Either remote_skill_id or workday_skill must be provided''), two_skills)"
    using delete_skill_selectors[of None "Some []" plain_lib two_skills] g0 by blast
  have b: "delete_skill plain_lib (Some '' 2 '') (Some ''java'') two_skills =
       (Inr (), mk_files [mk_row ''1'' ''Java'' ''Java (Programming Language)''])"
    by code_simp
  have c: "delete_skill plain_lib None (Some '' JAVA'') two_skills =
       (Inr (), mk_files [mk_row ''2'' ''JavaScript'' ''JavaScript (Programming Language)''])"
    by code_simp
  have d: "delete_skill plain_lib None (Some ''jav'') two_skills =
       (Inl (ValueError (not_found ''workday_skill'' ''jav'')), two_skills)"
    by code_simp
  from a b c d show ?thesis by blast
qed

text \<open>
  Claim C9: when no row of the store, as \<open>load_df\<close> reads it, has a \<open>workday_skill\<close>
  that equals the given value (lower-cased and stripped), \<open>delete\<close> with that
  \<open>workday_skill\<close> selector, and no \<open>remote_skill_id\<close>, raises the not-found error and
  returns the files unchanged: nothing is saved on the error path. The store need not
  even be non-empty.
\<close>

theorem delete_unknown_workday_skill:
  assumes "given remote_id = None" and "w \<noteq> []"
    and "load_df L fs = Inr df" and "\<forall>r\<in>set df. \<not> exact_hit w r"
  shows "delete_skill L remote_id (Some w) fs
           = (Inl (ValueError (not_found ''workday_skill'' w)), fs)"
  using assms
  by (auto simp: delete_skill_def Let_def given_def exact_mask_eq any_true_map)

text \<open>The example of the specification, on the non-empty store \<open>two_skills\<close>.\<close>

theorem delete_unknown_workday_skill_witness:
  "given None = None \<and> ''nonexistent'' \<noteq> []
   \<and> load_df plain_lib two_skills
       = Inr [mk_row ''1'' ''Java'' ''Java (Programming Language)'',
              mk_row ''2'' ''JavaScript'' ''JavaScript (Programming Language)'']
   \<and> list_all (\<lambda>r. \<not> exact_hit ''nonexistent'' r)
        [mk_row ''1'' ''Java'' ''Java (Programming Language)'',
         mk_row ''2'' ''JavaScript'' ''JavaScript (Programming Language)'']
   \<and> delete_skill plain_lib None (Some ''nonexistent'') two_skills
       = (Inl (ValueError (not_found ''workday_skill'' ''nonexistent'')), two_skills)"
proof -
  let ?df = "[mk_row ''1'' ''Java'' ''Java (Programming Language)'',
              mk_row ''2'' ''JavaScript'' ''JavaScript (Programming Language)'']"
  have g: "given None = None" by code_simp
  have n: "''nonexistent'' \<noteq> []" by simp
  have l: "load_df plain_lib two_skills = Inr ?df" by code_simp
  have a: "list_all (\<lambda>r. \<not> exact_hit ''nonexistent'' r) ?df"
    by code_simp
  then have a': "\<forall>r\<in>set ?df. \<not> exact_hit ''nonexistent'' r"
    by (simp only: list_all_iff)
  from delete_unknown_workday_skill[OF g n l a'] g n l a show ?thesis by blast
qed

subsection \<open>Lightcast-ready rows\<close>

text \<open>
  Claim C8: whenever \<open>get_lightcast_ready_df\<close> succeeds, with any optional arguments,
  every row it returns has a \<open>lightcast_skill\<close> that is neither empty nor made of
  whitespace only.
\<close>

theorem lightcast_ready_nonblank:
  assumes "get_lightcast_ready_df L remote_id workday fs = Inr rows"
  shows "\<forall>r\<in>set rows. lightcast_skill r \<noteq> [] \<and> (\<exists>c\<in>set (lightcast_skill r). \<not> isspace c)"
proof -
  from assms obtain df where
    "filter_contains L workday_skill workday
       (filter_id remote_id (filter (\<lambda>r. strip (lightcast_skill r) \<noteq> []) df)) = Inr rows"
    by (auto simp: get_lightcast_ready_df_def Let_def select_map split: if_splits sum.splits)
  from filter_contains_subset[OF this]
  have "set rows \<subseteq> set (filter (\<lambda>r. strip (lightcast_skill r) \<noteq> []) df)"
    by (auto simp: filter_id_eq)
  then have "\<forall>r\<in>set rows. strip (lightcast_skill r) \<noteq> []" by auto
  then show ?thesis by (auto simp: strip_Nil_iff)
qed

text \<open>
  Of the three rows of \<open>three_skills\<close>, one has an empty and one a blank
  \<open>lightcast_skill\<close>; the third is returned.
\<close>

theorem lightcast_ready_nonblank_witness:
  "get_lightcast_ready_df plain_lib None None three_skills
     = Inr [mk_row ''3'' ''Go'' ''Go (Programming Language)'']
   \<and> lightcast_skill (mk_row ''3'' ''Go'' ''Go (Programming Language)'') \<noteq> []
   \<and> (\<exists>c\<in>set (lightcast_skill (mk_row ''3'' ''Go'' ''Go (Programming Language)'')). \<not> isspace c)"
proof -
  have r: "get_lightcast_ready_df plain_lib None None three_skills
     = Inr [mk_row ''3'' ''Go'' ''Go (Programming Language)'']" by code_simp
  from lightcast_ready_nonblank[OF r] r show ?thesis by simp
qed

section \<open>Properties of the API layer\<close>

text \<open>
  What each handler does with an exception of the function it calls. \<open>GET /skills\<close>
  answers every exception with status 500; the handlers for update, delete and the
  lightcast-ready list answer a \<open>ValueError\<close> with 404 or 400.
\<close>

lemma main_list_skills_error:
  "list_skills L remote_id workday lightcast fs = Inl e \<Longrightarrow>
   main_list_skills L remote_id workday lightcast fs = HTTPException 500 (str_of e)"
  by (simp add: main_list_skills_def)

lemma update_skill_value_error:
  "update_lightcast_skill L (req_workday_skill p) (req_lightcast_skill p) fs = (Inl e, fs')
   \<Longrightarrow> value_error e \<Longrightarrow> update_skill L p fs = (HTTPException 404 (str_of e), fs')"
  by (simp add: update_skill_def)

lemma main_delete_skill_value_error:
  "delete_skill L remote_id workday fs = (Inl e, fs')
   \<Longrightarrow> value_error e \<Longrightarrow> main_delete_skill L remote_id workday fs = (HTTPException 400 (str_of e), fs')"
  by (simp add: main_delete_skill_def)

text \<open>
  Claim C4 says that every handler, \<open>GET /skills\<close> in particular, answers a
  validation failure of the component it calls with 404 or 400. Asked for the skill
  \<open>ruby\<close>, which the store \<open>two_skills\<close> does not hold, \<open>skill_store.list_skills\<close>
  raises the not-found \<open>ValueError\<close>; the handler of \<open>GET /skills\<close> turns it into
  status 500, while the handler of \<open>GET /skills/lightcast-ready\<close> answers the same
  failure with 404.
\<close>

theorem main_list_skills_not_found_500:
  "list_skills plain_lib None (Some ''ruby'') None two_skills
     = Inl (ValueError (not_found ''workday_skill'' ''ruby''))
   \<and> main_list_skills plain_lib None (Some ''ruby'') None two_skills
     = HTTPException 500 (not_found ''workday_skill'' ''ruby'')
   \<and> list_lightcast_ready_skills plain_lib None (Some ''ruby'') False two_skills
     = HTTPException 404 (not_found ''workday_skill'' ''ruby'' @ '' in lightcast-ready records'')"
  by code_simp

section \<open>Properties of the normalization\<close>

lemma normalize_row_None: "normalize_row s row = None \<longleftrightarrow> \<not> kept row"
  by (simp add: normalize_row_def kept_def Let_def)

lemma normalize_row_Some: "normalize_row s row = Some x \<Longrightarrow> kept row"
  by (simp add: normalize_row_def kept_def Let_def split: if_splits)

lemma results_from_nth:
  "i < length rows \<Longrightarrow> kept (rows ! i) \<Longrightarrow>
   length (filter kept (take i rows)) < length (results_from search j rows)
   \<and> normalize_row (search (j + i)) (rows ! i)
       = Some (results_from search j rows ! length (filter kept (take i rows)))"
proof (induction rows arbitrary: i j)
  case Nil
  then show ?case by simp
next
  case (Cons row rows)
  show ?case
  proof (cases i)
    case 0
    with Cons.prems show ?thesis
      by (auto simp: normalize_row_None split: option.splits)
  next
    case (Suc i')
    with Cons.prems have "i' < length rows" and "kept (rows ! i')" by simp_all
    from Cons.IH[OF this, of "Suc j"] Suc show ?thesis
      by (auto simp: normalize_row_None split: option.splits dest: normalize_row_Some)
  qed
qed

lemma length_results_from: "length (results_from search j rows) = length (filter kept rows)"
  by (induction rows arbitrary: j)
     (auto simp: normalize_row_None split: option.splits dest: normalize_row_Some)


lemma normalize_row_fields:
  assumes "normalize_row look row = Some rec"
  shows "remote_skill_id rec = up_remote_skill_id row
       \<and> workday_skill rec = strip (skill_name row)
       \<and> (look (strip (skill_name row)) = RequestFailed \<longrightarrow>
            status rec = ''ERROR'' \<and> lightcast_skill rec = [] \<and> lightcast_skill_id rec = []
            \<and> skill_type rec = [] \<and> category rec = [])
       \<and> (look (strip (skill_name row)) = Data [] \<longrightarrow>
            status rec = ''NO_MATCH'' \<and> lightcast_skill rec = [] \<and> lightcast_skill_id rec = []
            \<and> skill_type rec = [] \<and> category rec = [])
       \<and> (\<forall>s rest n k. look (strip (skill_name row)) = Data (s # rest)
              \<and> s_name s = Some n \<and> s_id s = Some k \<longrightarrow>
            status rec = ''SUCCESS'' \<and> lightcast_skill rec = n \<and> lightcast_skill_id rec = k)"
  using assms
  by (auto simp: normalize_row_def Let_def unmatched_record_def
      split: if_splits lookup.splits list.splits option.splits)

text \<open>
  Claim C6: when \<open>normalize_file\<close> succeeds, every processed row of the upload (a row
  whose skill name is not blank) has its record in the stored file, at the position
  given by the number of processed rows before it. The record carries the row's
  \<open>remote_skill_id\<close> and the stripped skill name. It has status \<open>ERROR\<close> and empty
  canonical fields when the request failed, status \<open>NO_MATCH\<close> and empty canonical
  fields when the result list is empty, and status \<open>SUCCESS\<close> with the name and id of
  the first result, verbatim, when the search returned results.
\<close>

theorem normalize_file_record:
  assumes run: "normalize_file L token search sfx rows fs = (Inr (), fs')"
    and i: "i < length rows" and k: "kept (rows ! i)"
  shows "\<exists>stored rec. csv_file fs' = Some (Table stored)
       \<and> length (filter kept (take i rows)) < length stored
       \<and> stored ! length (filter kept (take i rows)) = rec
       \<and> remote_skill_id rec = up_remote_skill_id (rows ! i)
       \<and> workday_skill rec = strip (skill_name (rows ! i))
       \<and> (search i (strip (skill_name (rows ! i))) = RequestFailed \<longrightarrow>
            status rec = ''ERROR'' \<and> lightcast_skill rec = [] \<and> lightcast_skill_id rec = []
            \<and> skill_type rec = [] \<and> category rec = [])
       \<and> (search i (strip (skill_name (rows ! i))) = Data [] \<longrightarrow>
            status rec = ''NO_MATCH'' \<and> lightcast_skill rec = [] \<and> lightcast_skill_id rec = []
            \<and> skill_type rec = [] \<and> category rec = [])
       \<and> (\<forall>s rest n k. search i (strip (skill_name (rows ! i))) = Data (s # rest)
              \<and> s_name s = Some n \<and> s_id s = Some k \<longrightarrow>
            status rec = ''SUCCESS'' \<and> lightcast_skill rec = n \<and> lightcast_skill_id rec = k)"
proof -
  let ?stored = "results_from search 0 rows"
  let ?p = "length (filter kept (take i rows))"
  from results_from_nth[OF i k, of search 0] have ne: "?stored \<noteq> []" by auto
  from run ne have fs': "csv_file fs' = Some (Table ?stored)"
    by (auto simp: normalize_file_def write_files_def Let_def
        split: sum.splits if_splits option.splits)
  from results_from_nth[OF i k, of search 0]
  have len: "?p < length ?stored"
    and rec: "normalize_row (search i) (rows ! i) = Some (?stored ! ?p)" by simp_all
  from normalize_row_fields[OF rec] fs' len show ?thesis by blast
qed

text \<open>The example of the specification: row 42, \<open>python programming\<close>.\<close>

theorem normalize_file_record_witness:
  "normalize_file plain_lib (Inr ''token'') python_search ''.csv'' [python_row]
       no_files
     = (Inr (), mk_files
         [\<lparr> remote_skill_id = ''42'', workday_skill = ''python programming'',
            lightcast_skill = ''Python (Programming Language)'',
            lightcast_skill_id = ''KS1200364C9C1LK3V5Q1'', skill_type = [], category = [],
            status = ''SUCCESS'' \<rparr>])
   \<and> (0::nat) < length [python_row] \<and> kept ([python_row] ! 0)
   \<and> (\<exists>stored rec. csv_file (mk_files
         [\<lparr> remote_skill_id = ''42'', workday_skill = ''python programming'',
            lightcast_skill = ''Python (Programming Language)'',
            lightcast_skill_id = ''KS1200364C9C1LK3V5Q1'', skill_type = [], category = [],
            status = ''SUCCESS'' \<rparr>]) = Some (Table stored)
        \<and> stored ! 0 = rec \<and> status rec = ''SUCCESS''
        \<and> lightcast_skill rec = ''Python (Programming Language)''
        \<and> lightcast_skill_id rec = ''KS1200364C9C1LK3V5Q1'')"
proof -
  let ?fs' = "mk_files
         [\<lparr> remote_skill_id = ''42'', workday_skill = ''python programming'',
            lightcast_skill = ''Python (Programming Language)'',
            lightcast_skill_id = ''KS1200364C9C1LK3V5Q1'', skill_type = [], category = [],
            status = ''SUCCESS'' \<rparr>]"
  have run: "normalize_file plain_lib (Inr ''token'') python_search ''.csv'' [python_row]
       no_files = (Inr (), ?fs')"
    by code_simp
  have i: "(0::nat) < length [python_row]" by simp
  have k: "kept ([python_row] ! 0)" by code_simp
  have m: "s_name python_match = Some ''Python (Programming Language)''
         \<and> s_id python_match = Some ''KS1200364C9C1LK3V5Q1''"
    by (simp add: python_match_def)
  from normalize_file_record[OF run i k] m
  have "\<exists>stored rec. csv_file ?fs' = Some (Table stored)
        \<and> stored ! 0 = rec \<and> status rec = ''SUCCESS''
        \<and> lightcast_skill rec = ''Python (Programming Language)''
        \<and> lightcast_skill_id rec = ''KS1200364C9C1LK3V5Q1''"
    by (simp add: python_search_def) blast
  with run i k show ?thesis by blast
qed

section \<open>Properties of the course mapping\<close>

subsection \<open>Deduplication in insertion order\<close>

lemma fromkeys_snoc:
  "fromkeys (xs @ [x]) = (if x \<in> set (fromkeys xs) then fromkeys xs else fromkeys xs @ [x])"
  by (simp add: fromkeys_def)

lemma set_fromkeys: "set (fromkeys xs) = set xs"
  by (induction xs rule: rev_induct) (auto simp: fromkeys_snoc, simp add: fromkeys_def)

lemma distinct_fromkeys: "distinct (fromkeys xs)"
  by (induction xs rule: rev_induct) (simp_all add: fromkeys_snoc, simp add: fromkeys_def)

lemma first_occurrences_snoc:
  "first_occurrences (xs @ [x]) = first_occurrences xs @ (if x \<in> set xs then [] else [x])"
proof -
  let ?P = "\<lambda>i. (xs @ [x]) ! i \<notin> set (take i (xs @ [x]))"
  let ?Q = "\<lambda>i. xs ! i \<notin> set (take i xs)"
  let ?n = "length xs"
  have f: "filter ?P [0..<?n] = filter ?Q [0..<?n]"
    by (rule filter_cong) (auto simp: nth_append)
  have m: "map (\<lambda>i. (xs @ [x]) ! i) (filter ?Q [0..<?n]) = map (\<lambda>i. xs ! i) (filter ?Q [0..<?n])"
    by (rule map_cong) (auto simp: nth_append)
  have l: "map (\<lambda>i. (xs @ [x]) ! i) (filter ?P [?n]) = (if x \<in> set xs then [] else [x])"
    by simp
  have "first_occurrences (xs @ [x])
          = map (\<lambda>i. (xs @ [x]) ! i) (filter ?P ([0..<?n] @ [?n]))"
    by (simp add: first_occurrences_def)
  also have "\<dots> = map (\<lambda>i. (xs @ [x]) ! i) (filter ?P [0..<?n])
                   @ map (\<lambda>i. (xs @ [x]) ! i) (filter ?P [?n])"
    by (simp only: filter_append map_append)
  also have "\<dots> = first_occurrences xs @ (if x \<in> set xs then [] else [x])"
    by (simp only: f m l first_occurrences_def)
  finally show ?thesis .
qed

lemma fromkeys_first_occurrences: "fromkeys xs = first_occurrences xs"
proof (induction xs rule: rev_induct)
  case Nil
  show ?case by (simp add: fromkeys_def first_occurrences_def)
next
  case (snoc x xs)
  have "fromkeys (xs @ [x]) = fromkeys xs @ (if x \<in> set xs then [] else [x])"
    by (simp add: fromkeys_snoc set_fromkeys)
  with snoc show ?case
    by (simp only: first_occurrences_snoc)
qed

lemma key_of_agg_group: "key_of (agg_group k g) = k"
  by (cases k) (simp add: key_of_def agg_group_def)

lemma filter_eq_single: "distinct ks \<Longrightarrow> k \<in> set ks \<Longrightarrow> filter (\<lambda>x. x = k) ks = [k]"
  by (induction ks) (auto simp: filter_empty_conv)

lemma aggregate_filter_key:
  assumes "k \<in> key_of ` set out_df"
  shows "filter (\<lambda>y. key_of y = k) (aggregate out_df)
           = [agg_group k (filter (\<lambda>r. key_of r = k) out_df)]"
proof -
  let ?ks = "sort (remdups (map key_of out_df))"
  have d: "distinct ?ks" and m: "k \<in> set ?ks" using assms by simp_all
  have "filter (\<lambda>y. key_of y = k) (aggregate out_df)
          = map (\<lambda>k. agg_group k (filter (\<lambda>r. key_of r = k) out_df)) (filter (\<lambda>x. x = k) ?ks)"
    by (simp add: aggregate_def filter_map comp_def key_of_agg_group)
  also have "\<dots> = [agg_group k (filter (\<lambda>r. key_of r = k) out_df)]"
    by (simp add: filter_eq_single[OF d m])
  finally show ?thesis .
qed

lemma agg_group_fields:
  "course_name (agg_group k g) = agg_plain (map course_name g)
   \<and> course_slug (agg_group k g) = agg_plain (map course_slug g)
   \<and> course_link (agg_group k g) = agg_plain (map course_link g)
   \<and> course_skills (agg_group k g) = agg_skills (map course_skills g)"
  by (cases k) (simp add: agg_group_def)


text \<open>
  Claim C7: in the aggregated mapping every group of emitted rows that share the six
  key columns has exactly one row. Its \<open>course_name\<close>, \<open>course_slug\<close> and
  \<open>course_link\<close> are the group's values, each kept where it occurs first, joined with
  a comma and a blank; its \<open>course_skills\<close> are the group's values joined, split again
  at every comma and blank, deduplicated in the same way and joined again.
\<close>

theorem aggregate_group:
  assumes "r \<in> set out_df"
  shows "\<exists>row. filter (\<lambda>y. key_of y = key_of r) (aggregate out_df) = [row]
     \<and> course_name row = join '', ''
          (first_occurrences (map course_name (filter (\<lambda>x. key_of x = key_of r) out_df)))
     \<and> course_slug row = join '', ''
          (first_occurrences (map course_slug (filter (\<lambda>x. key_of x = key_of r) out_df)))
     \<and> course_link row = join '', ''
          (first_occurrences (map course_link (filter (\<lambda>x. key_of x = key_of r) out_df)))
     \<and> course_skills row = join '', ''
          (first_occurrences
             (split (join '', '' (map course_skills (filter (\<lambda>x. key_of x = key_of r) out_df)))
                '', ''))"
proof -
  from assms have "key_of r \<in> key_of ` set out_df" by simp
  from aggregate_filter_key[OF this] show ?thesis
    by (simp add: agg_group_fields agg_plain_def agg_skills_def fromkeys_first_occurrences)
qed

text \<open>
  The example of the specification: two rows of one group with the skills \<open>A, B\<close>
  and \<open>B, C\<close> aggregate to \<open>A, B, C\<close>.
\<close>

theorem aggregate_group_witness:
  "course_a \<in> set [course_a, course_b]
   \<and> aggregate [course_a, course_b]
       = [course_a \<lparr> course_slug := ''python, python-2'', course_skills := ''A, B, C'' \<rparr>]
   \<and> (\<exists>row. filter (\<lambda>y. key_of y = key_of course_a) (aggregate [course_a, course_b]) = [row]
         \<and> course_skills row = ''A, B, C'')"
proof -
  have m: "course_a \<in> set [course_a, course_b]" by simp
  have a: "aggregate [course_a, course_b]
       = [course_a \<lparr> course_slug := ''python, python-2'', course_skills := ''A, B, C'' \<rparr>]"
    by code_simp
  have k: "filter (\<lambda>x. key_of x = key_of course_a) [course_a, course_b] = [course_a, course_b]"
    by code_simp
  have s: "map course_skills [course_a, course_b] = [''A, B'', ''B, C'']"
    by (simp add: course_a_def course_b_def)
  have f: "join '', '' (first_occurrences (split (join '', '' [''A, B'', ''B, C'']) '', ''))
             = ''A, B, C''"
    by code_simp
  from aggregate_group[OF m]
  have "\<exists>row. filter (\<lambda>y. key_of y = key_of course_a) (aggregate [course_a, course_b]) = [row]
         \<and> course_skills row = ''A, B, C''"
    unfolding k s f by blast
  with m a show ?thesis by blast
qed

subsection \<open>Skill extraction\<close>

lemma set_link_texts:
  "set (link_texts ul) = {t. t \<noteq> [] \<and> (\<exists>a\<in>set (find_all ''a'' ul). t = get_text a)}"
  by (auto simp: link_texts_def)

lemma heading_links_Nil: "heading_links [] = {}"
  by (simp add: heading_links_def)

lemma ex_nat_cases: "(\<exists>i. P i) \<longleftrightarrow> P 0 \<or> (\<exists>j. P (Suc j))"
  by (metis not0_implies_Suc)

lemma heading_links_Cons:
  "heading_links (n # ns) =
     (if skill_heading n
      then (case find_next ''ul'' ns of None \<Rightarrow> {} | Some ul \<Rightarrow> set (link_texts ul))
      else {}) \<union> heading_links ns"
proof -
  define hl where "hl ms i t \<longleftrightarrow>
      i < length ms \<and> skill_heading (ms ! i)
      \<and> (\<exists>ul a. find_next ''ul'' (drop (Suc i) ms) = Some ul
            \<and> a \<in> set (find_all ''a'' ul) \<and> t = get_text a)" for ms i t
  have hl: "heading_links ms = {t. t \<noteq> [] \<and> (\<exists>i. hl ms i t)}" for ms
    unfolding heading_links_def hl_def by blast
  have z: "hl (n # ns) 0 t \<longleftrightarrow>
      skill_heading n \<and> (\<exists>ul a. find_next ''ul'' ns = Some ul
            \<and> a \<in> set (find_all ''a'' ul) \<and> t = get_text a)" for t
    by (simp add: hl_def)
  have s: "hl (n # ns) (Suc j) t \<longleftrightarrow> hl ns j t" for j t
    by (simp add: hl_def)
  have e: "(\<exists>i. hl (n # ns) i t) \<longleftrightarrow>
      (skill_heading n \<and> (\<exists>ul a. find_next ''ul'' ns = Some ul
            \<and> a \<in> set (find_all ''a'' ul) \<and> t = get_text a)) \<or> (\<exists>j. hl ns j t)" for t
    using ex_nat_cases[of "\<lambda>i. hl (n # ns) i t"] by (simp add: z s)
  have "t \<in> heading_links (n # ns) \<longleftrightarrow>
      t \<in> (if skill_heading n
      then (case find_next ''ul'' ns of None \<Rightarrow> {} | Some ul \<Rightarrow> set (link_texts ul))
      else {}) \<union> heading_links ns" for t
    by (auto simp: hl e set_link_texts split: option.splits)
  then show ?thesis by blast
qed

lemma set_collect_skills: "set (collect_skills ns) = heading_links ns"
  by (induction ns) (auto simp: heading_links_Nil heading_links_Cons split: option.splits)


text \<open>
  What the extraction computes: for every \<open>h2\<close> heading of the page whose text mentions
  skills, the links of the first \<open>ul\<close> after it; the texts without duplicates, sorted,
  joined with a comma and a blank. A page that cannot be fetched or parsed gives the
  empty string.
\<close>

lemma fetch_course_skills_all_headings:
  "(web url = None \<longrightarrow> fetch_course_skills web url = [])
   \<and> (\<forall>soup. web url = Some soup \<longrightarrow>
        (\<exists>xs. fetch_course_skills web url = join '', '' xs
           \<and> sorted xs \<and> distinct xs \<and> set xs = heading_links (all_nodes soup)))"
  by (auto simp: fetch_course_skills_def set_collect_skills[symmetric]
      intro!: exI[of _ "sorted_list_of_set (set (collect_skills (all_nodes soup)))" for soup])




text \<open>
  Claim C3 says that the extraction locates a heading that mentions skills and takes
  only the first list that follows it; the comment of the code says that it extracts
  from the section of the skills to gain only. The loop runs over every \<open>h2\<close> heading
  and appends to one list. On the page \<open>two_headings\<close> the result holds \<open>Excel\<close>,
  which stands only in the list under the second heading; the extraction in the
  specification's words returns the links of the first list.
\<close>

theorem fetch_course_skills_two_headings:
  "fetch_course_skills (serve two_headings) ''https://www.coursera.org/learn/python''
     = ''Data Analysis, Excel, Python''
   \<and> spec_course_skills two_headings = ''Data Analysis, Python''
   \<and> join '', '' (sorted_list_of_set (set (link_texts gain_list))) = ''Data Analysis, Python''
   \<and> join '', '' (sorted_list_of_set (set (link_texts recommended_list))) = ''Excel, Python''"
  by code_simp

end
